theory Spec2Isabelle
  imports Main
begin

section \<open>Package-Builder: the release procedure of \<open>pkgbld/release.py\<close>\<close>

text \<open>
  The module holds one function, \<open>release\<close>: it checks its parameters, prints a plan,
  and then runs a fixed sequence of file-system operations and external commands.
  The model keeps the order of the source. Python values are a datatype, so that the
  \<open>isinstance\<close> checks are real branches; every effect of the procedure is an
  \<open>event\<close>, and a run yields the exception raised (if any) and the events in the
  order in which they were issued.

  Strings are \<open>char list\<close>; one \<open>char\<close> stands for one character of a Python
  \<open>str\<close>. Paths follow \<open>posixpath\<close>.
\<close>

subsection \<open>Python values\<close>

datatype pyval =
    PyNone
  | PyBool bool
  | PyInt int
  | PyStr string
  | PyList "pyval list"

text \<open>Truth value of an object, as \<open>channels or []\<close> tests it.\<close>

fun truthy :: "pyval \<Rightarrow> bool" where
  "truthy PyNone = False"
| "truthy (PyBool b) = b"
| "truthy (PyInt i) = (i \<noteq> 0)"
| "truthy (PyStr s) = (s \<noteq> [])"
| "truthy (PyList xs) = (xs \<noteq> [])"

subsection \<open>Events and exceptions\<close>

datatype event =
    Print string                      \<comment> \<open>\<open>print(text)\<close>\<close>
  | PrintTime string                  \<comment> \<open>\<open>print(text.format(time.asctime()))\<close>, the text before the time\<close>
  | Rmtree string                     \<comment> \<open>\<open>shutil.rmtree(path)\<close>\<close>
  | Copytree string string "string list"
                                      \<comment> \<open>\<open>shutil.copytree(src, dst, ignore=ignore_patterns(...))\<close>\<close>
  | Mkdir string                      \<comment> \<open>\<open>os.mkdir(path)\<close>\<close>
  | Chdir string                      \<comment> \<open>\<open>os.chdir(path)\<close>\<close>
  | OsCall string bool                \<comment> \<open>\<open>u.os_call(cmd, ignore_error)\<close>\<close>
  | FileRevision string string string \<comment> \<open>\<open>u.file_revision(filename, pattern, replacement)\<close>\<close>

datatype error =
    ValueError string
  | TypeError
  | OSError event                     \<comment> \<open>the operation that failed\<close>

subsection \<open>The environment of a call\<close>

text \<open>
  What the procedure reads from outside. \<open>isdir\<close> is the file system as
  \<open>os.path.isdir\<close> sees it when \<open>release\<close> is entered; both of its uses come
  before the first change to the file system. The outcome of an operation may
  depend on everything that was done before it, so \<open>exit_status\<close> and
  \<open>os_error\<close> take the events issued so far.
\<close>

record env =
  home_dir :: string                                \<comment> \<open>\<open>os.path.expanduser('~')\<close>\<close>
  conda_token :: "string option"                    \<comment> \<open>\<open>os.environ.get("CONDA_TOKEN", None)\<close>\<close>
  getcwd :: string                                  \<comment> \<open>\<open>os.getcwd()\<close>\<close>
  isdir :: "string \<Rightarrow> bool"                  \<comment> \<open>\<open>os.path.isdir\<close>\<close>
  exit_status :: "event list \<Rightarrow> string \<Rightarrow> int" \<comment> \<open>exit status of an external command\<close>
  os_error :: "event list \<Rightarrow> event \<Rightarrow> bool"  \<comment> \<open>a file operation raises\<close>
  str_of :: "pyval \<Rightarrow> string"                 \<comment> \<open>\<open>str(x)\<close> of an object that is not a \<open>str\<close>\<close>

text \<open>\<open>'{}'.format(x)\<close> and \<open>f'{x}'\<close>: a \<open>str\<close> is inserted as it is.\<close>

definition py_str :: "env \<Rightarrow> pyval \<Rightarrow> string" where
  "py_str w x = (case x of PyStr s \<Rightarrow> s | _ \<Rightarrow> str_of w x)"

subsection \<open>Library functions used by the module\<close>

text \<open>\<open>posixpath.join(a, *p)\<close>: an absolute component discards what precedes it.\<close>

definition join_step :: "string \<Rightarrow> string \<Rightarrow> string" where
  "join_step path b =
     (if b \<noteq> [] \<and> hd b = CHR ''/'' then b
      else if path = [] \<or> last path = CHR ''/'' then path @ b
      else path @ ''/'' @ b)"

definition os_path_join :: "string \<Rightarrow> string list \<Rightarrow> string" where
  "os_path_join a p = foldl join_step a p"

text \<open>\<open>s.endswith(t)\<close>\<close>

definition endswith :: "string \<Rightarrow> string \<Rightarrow> bool" where
  "endswith s t = (length t \<le> length s \<and> drop (length s - length t) s = t)"

text \<open>
  \<open>re.match\<close> for the patterns the module uses: a sequence of items, each \<open>^\<close>,
  \<open>$\<close>, a literal character, or \<open>[lo-hi]+\<close>. A match state is the number of
  characters consumed and the rest of the subject. Without flags, \<open>^\<close> matches at
  the start of the subject only, and \<open>$\<close> matches at the end of the subject and
  also just before a newline that is its last character.
\<close>

datatype rx = Bol | Eol | Chr char | PlusRange char char

definition in_range :: "char \<Rightarrow> char \<Rightarrow> char \<Rightarrow> bool" where
  "in_range lo hi c = ((of_char lo :: nat) \<le> of_char c \<and> (of_char c :: nat) \<le> of_char hi)"

text \<open>All ways for \<open>[lo-hi]+\<close> to consume one or more characters, longest first.\<close>

fun plus_range :: "char \<Rightarrow> char \<Rightarrow> nat \<Rightarrow> string \<Rightarrow> (nat \<times> string) list" where
  "plus_range lo hi n [] = []"
| "plus_range lo hi n (c # cs) =
     (if in_range lo hi c then plus_range lo hi (Suc n) cs @ [(Suc n, cs)] else [])"

fun rx_item :: "rx \<Rightarrow> nat \<times> string \<Rightarrow> (nat \<times> string) list" where
  "rx_item Bol (n, s) = (if n = 0 then [(n, s)] else [])"
| "rx_item Eol (n, s) = (if s = [] \<or> s = [CHR 0x0A] then [(n, s)] else [])"
| "rx_item (Chr c) (n, s) =
     (case s of [] \<Rightarrow> [] | x # xs \<Rightarrow> if x = c then [(Suc n, xs)] else [])"
| "rx_item (PlusRange lo hi) (n, s) = plus_range lo hi n s"

fun rx_seq :: "rx list \<Rightarrow> nat \<times> string \<Rightarrow> (nat \<times> string) list" where
  "rx_seq [] st = [st]"
| "rx_seq (r # rs) st = concat (map (rx_seq rs) (rx_item r st))"

text \<open>\<open>re.match(pattern, s)\<close>: \<open>None\<close>, or the end of the first match found.\<close>

definition re_match :: "rx list \<Rightarrow> string \<Rightarrow> nat option" where
  "re_match p s = (case rx_seq p (0, s) of [] \<Rightarrow> None | (n, _) # _ \<Rightarrow> Some n)"

subsection \<open>Module constants\<close>

definition GITHUB_URL :: string where
  "GITHUB_URL = ''https://github.com/PSLmodels''"

definition ANACONDA_USER :: string where
  "ANACONDA_USER = ''pslmodels''"

definition ANACONDA_CHANNEL :: string where
  "ANACONDA_CHANNEL = ANACONDA_USER"

definition HOME_DIR :: "env \<Rightarrow> string" where
  "HOME_DIR w = home_dir w"

definition ANACONDA_TOKEN_FILE :: "env \<Rightarrow> string" where
  "ANACONDA_TOKEN_FILE w = os_path_join (HOME_DIR w) [''.'' @ ANACONDA_USER @ ''_anaconda_token'']"

definition ANACONDA_TOKEN :: "env \<Rightarrow> string option" where
  "ANACONDA_TOKEN w = conda_token w"

definition WORKING_DIR :: "env \<Rightarrow> string" where
  "WORKING_DIR w = os_path_join (HOME_DIR w) [''temporary_pkgbld_working_dir'']"

definition BUILDS_DIR :: string where
  "BUILDS_DIR = ''pkgbld_output''"

subsection \<open>Checking the parameters (lines 82 to 106)\<close>

text \<open>\<open>r'^[0-9]+\.[0-9]+\.[0-9]+$'\<close>\<close>

definition version_pattern :: "rx list" where
  "version_pattern =
     [Bol, PlusRange CHR ''0'' CHR ''9'', Chr CHR ''.'', PlusRange CHR ''0'' CHR ''9'',
      Chr CHR ''.'', PlusRange CHR ''0'' CHR ''9'', Eol]"

text \<open>
  The checks in the order of the source. \<open>Inr\<close> carries the five checked
  parameters, now known to be three strings and two booleans.
\<close>

definition check_parameters ::
  "env \<Rightarrow> pyval \<Rightarrow> pyval \<Rightarrow> pyval \<Rightarrow> pyval \<Rightarrow> pyval
     \<Rightarrow> error + (string \<times> string \<times> string \<times> bool \<times> bool)" where
  "check_parameters w repo_name pkg_name version local dryrun =
     (case repo_name of
        PyStr r \<Rightarrow>
          (case pkg_name of
             PyStr p \<Rightarrow>
               (case version of
                  PyStr v \<Rightarrow>
                    (case local of
                       PyBool l \<Rightarrow>
                         if l \<and> \<not> endswith (getcwd w) r then
                           Inl (ValueError (''ERROR: cwd='' @ getcwd w @
                                  '' does not correspond to REPOSITORY_NAME='' @ r @ [CHR 0x0A]))
                         else if l \<and> \<not> isdir w (os_path_join ''.'' [p]) then
                           Inl (ValueError (''ERROR: cwd='' @ getcwd w @
                                  '' does not contain subdirectory '' @ p @ '' ''))
                         else
                           (case dryrun of
                              PyBool d \<Rightarrow>
                                if re_match version_pattern v = None then
                                  Inl (ValueError (''version='' @ v @
                                         '' does not have X.Y.Z semantic-versioning pattern''))
                                else Inr (r, p, v, l, d)
                            | _ \<Rightarrow> Inl (ValueError ''dryrun is not a boolean object''))
                     | _ \<Rightarrow> Inl (ValueError ''local is not a boolean object''))
                | _ \<Rightarrow> Inl (ValueError ''version is not a string object''))
           | _ \<Rightarrow> Inl (ValueError ''pkg_name is not a string object''))
      | _ \<Rightarrow> Inl (ValueError ''repo_name is not a string object''))"

subsection \<open>The helpers of \<open>pkgbld.utils\<close>\<close>

text \<open>
  Modelled from the spec: \<open>u.os_call(cmd, ignore_error=False)\<close> of \<open>pkgbld.utils\<close>, a
  module that is not among the sources. The spec says of the external tools that any
  nonzero exit is fatal and propagated, and that a failure of the call made with
  \<open>ignore_error=True\<close> is tolerated and ignored. The result is the exception raised.
\<close>

definition os_call :: "env \<Rightarrow> event list \<Rightarrow> string \<Rightarrow> bool \<Rightarrow> error option" where
  "os_call w tr cmd ignore_error =
     (if exit_status w tr cmd \<noteq> 0 \<and> \<not> ignore_error
      then Some (OSError (OsCall cmd ignore_error)) else None)"

text \<open>
  Carrying out one event after the events \<open>tr\<close>. Printing does not fail; an external
  command fails as \<open>os_call\<close> says. Modelled from the spec: \<open>u.file_revision\<close>, also
  of \<open>pkgbld.utils\<close>, rewrites a file in place and fails when the file is missing; like
  the operations of \<open>os\<close> and \<open>shutil\<close> it is a file operation that the
  environment lets succeed or fail.
\<close>

fun perform :: "env \<Rightarrow> event list \<Rightarrow> event \<Rightarrow> error option" where
  "perform w tr (Print s) = None"
| "perform w tr (PrintTime s) = None"
| "perform w tr (OsCall cmd ignore_error) = os_call w tr cmd ignore_error"
| "perform w tr e = (if os_error w tr e then Some (OSError e) else None)"

text \<open>
  Statements in sequence: each is issued and recorded; the first exception ends the
  run. The result is the exception (if any) and all events issued.
\<close>

fun exec :: "env \<Rightarrow> event list \<Rightarrow> event list \<Rightarrow> error option \<times> event list" where
  "exec w tr [] = (None, tr)"
| "exec w tr (e # es) =
     (case perform w tr e of
        Some x \<Rightarrow> (Some x, tr @ [e])
      | None \<Rightarrow> exec w (tr @ [e]) es)"

subsection \<open>The steps of \<open>release\<close>\<close>

text \<open>Lines 109 to 119: the execution plan.\<close>

definition plan_steps :: "env \<Rightarrow> string \<Rightarrow> string \<Rightarrow> string \<Rightarrow> bool \<Rightarrow> pyval \<Rightarrow> event list" where
  "plan_steps w r p v l channels =
     [Print '': Package-Builder will build model packages for:'',
      Print ('':   repository_name = '' @ r),
      Print ('':   package_name = '' @ p),
      Print ('':   model_version = '' @ v),
      Print ('':   additional channels= '' @ py_str w channels)] @
     (if l then
        [Print '': Package-Builder will install package on local computer'']
      else
        [Print '': Package-Builder will upload model packages to:'',
         Print ('':   Anaconda channel = '' @ ANACONDA_CHANNEL),
         Print ('':   using token in file = '' @ ANACONDA_TOKEN_FILE w)])"

text \<open>Lines 125 to 149: the old working directory is removed and the source is fetched.\<close>

definition acquire_steps :: "env \<Rightarrow> string \<Rightarrow> string \<Rightarrow> bool \<Rightarrow> event list" where
  "acquire_steps w r v l =
     [PrintTime '': Package-Builder is starting at ''] @
     (if isdir w (WORKING_DIR w) then [Rmtree (WORKING_DIR w)] else []) @
     (if l then
        [Print '': Package-Builder is copying local source code'',
         Copytree (getcwd w) (os_path_join (WORKING_DIR w) [r]) [''*.pyc'', ''*.html'', ''test_*''],
         Chdir (WORKING_DIR w)]
      else
        [Print ('': Package-Builder is cloning repository code for '' @ v),
         Mkdir (WORKING_DIR w),
         Chdir (WORKING_DIR w),
         OsCall (''git clone --branch '' @ v @ '' --depth 1 '' @ GITHUB_URL @ ''/'' @ r @ ''/'') False]) @
     [Chdir r]"

text \<open>Lines 152 to 170: the version is written into three files.\<close>

definition stamp_steps :: "string \<Rightarrow> string \<Rightarrow> event list" where
  "stamp_steps p v =
     [Print '': Package-Builder is setting version'',
      FileRevision (os_path_join ''conda.recipe'' [''meta.yaml'']) ''version: .*''
        (''version: '' @ v),
      FileRevision ''setup.py'' ''version = .*''
        (''version = '' @ [CHR 0x22] @ v @ [CHR 0x22]),
      FileRevision (os_path_join p [''__init__.py'']) ''__version__ = .*''
        (''__version__ = '' @ [CHR 0x22] @ v @ [CHR 0x22])]"

text \<open>
  Lines 172 to 175. \<open>for channel in channels or []\<close> iterates a list by element and a
  \<open>str\<close> by character; any other object that is true raises \<open>TypeError\<close>.
\<close>

fun py_iter :: "pyval \<Rightarrow> error + pyval list" where
  "py_iter (PyList xs) = Inr xs"
| "py_iter (PyStr s) = Inr (map (\<lambda>c. PyStr [c]) s)"
| "py_iter x = Inl TypeError"

definition channel_str :: "env \<Rightarrow> pyval \<Rightarrow> error + string" where
  "channel_str w channels =
     (case py_iter (if truthy channels then channels else PyList []) of
        Inl e \<Rightarrow> Inl e
      | Inr xs \<Rightarrow>
          Inr (foldl (\<lambda>acc channel. acc @ '' --channel '' @ py_str w channel) [] xs
               @ '' --channel defaults --channel '' @ ANACONDA_CHANNEL))"

text \<open>Line 185: \<open>TOKEN = ANACONDA_TOKEN or ANACONDA_TOKEN_FILE\<close>\<close>

definition TOKEN :: "env \<Rightarrow> string" where
  "TOKEN w =
     (case ANACONDA_TOKEN w of
        None \<Rightarrow> ANACONDA_TOKEN_FILE w
      | Some t \<Rightarrow> if t = [] then ANACONDA_TOKEN_FILE w else t)"

text \<open>Lines 186 to 189: the build command.\<close>

definition build_cmd :: "env \<Rightarrow> string \<Rightarrow> string" where
  "build_cmd w cs =
     ''conda build conda.recipe/ --token '' @ TOKEN w @ '' --user '' @ ANACONDA_USER @ '' '' @
     ''--output-folder '' @ BUILDS_DIR @ '' --override-channels '' @ cs"

text \<open>Lines 177 to 190: upload setting and build.\<close>

definition build_steps :: "env \<Rightarrow> bool \<Rightarrow> string \<Rightarrow> event list" where
  "build_steps w l cs =
     [OsCall (if l then ''conda config --set anaconda_upload no''
              else ''conda config --set anaconda_upload yes'') False,
      Print '': Package-Builder is building package'',
      OsCall (build_cmd w cs) False]"

text \<open>Lines 192 to 201: uninstall and install, in local mode only.\<close>

definition uninstall_cmd :: "string \<Rightarrow> string" where
  "uninstall_cmd p = ''conda uninstall '' @ p @ '' --yes''"

definition pkg_dir :: "env \<Rightarrow> string \<Rightarrow> string" where
  "pkg_dir w r = os_path_join ''file://'' [WORKING_DIR w, r, ''pkgbld_output'']"

definition install_cmd :: "env \<Rightarrow> string \<Rightarrow> string \<Rightarrow> string \<Rightarrow> string" where
  "install_cmd w r p v =
     ''conda install --channel '' @ pkg_dir w r @ '' '' @ p @ ''='' @ v @ '' --yes''"

definition install_steps :: "env \<Rightarrow> string \<Rightarrow> string \<Rightarrow> string \<Rightarrow> event list" where
  "install_steps w r p v =
     [Print '': Package-Builder is uninstalling any existing package'',
      OsCall (uninstall_cmd p) True,
      Print '': Package-Builder is installing package on local computer'',
      OsCall (install_cmd w r p v) False]"

text \<open>Lines 203 to 213: cleaning up.\<close>

definition cleanup_steps :: "env \<Rightarrow> event list" where
  "cleanup_steps w =
     [Print '': Package-Builder is cleaning-up'',
      OsCall ''conda build purge'' False,
      Chdir (HOME_DIR w),
      Rmtree (WORKING_DIR w),
      PrintTime '': Package-Builder is finishing at '']"

subsection \<open>\<open>release\<close>\<close>

text \<open>
  The result of a call is the exception it raised, or \<open>None\<close> when it returned, and the
  events it issued, in order.
\<close>

definition release ::
  "env \<Rightarrow> pyval \<Rightarrow> pyval \<Rightarrow> pyval \<Rightarrow> pyval \<Rightarrow> pyval \<Rightarrow> pyval
     \<Rightarrow> error option \<times> event list" where
  "release w repo_name pkg_name version local dryrun channels =
     (case check_parameters w repo_name pkg_name version local dryrun of
        Inl e \<Rightarrow> (Some e, [])
      | Inr (r, p, v, l, d) \<Rightarrow>
          if d then
            exec w [] (plan_steps w r p v l channels @ [Print '': Package-Builder is quitting''])
          else
            (case exec w [] (plan_steps w r p v l channels @ acquire_steps w r v l @ stamp_steps p v) of
               (Some e, tr) \<Rightarrow> (Some e, tr)
             | (None, tr) \<Rightarrow>
                 (case channel_str w channels of
                    Inl e \<Rightarrow> (Some e, tr)
                  | Inr cs \<Rightarrow>
                      exec w tr (build_steps w l cs @
                                 (if l then install_steps w r p v else []) @
                                 cleanup_steps w))))"

subsection \<open>Notions used to state the properties\<close>

text \<open>\<open>s.startswith(t)\<close>, used to tell the external commands apart.\<close>

fun startswith :: "string \<Rightarrow> string \<Rightarrow> bool" where
  "startswith s [] = True"
| "startswith [] (y # ys) = False"
| "startswith (x # xs) (y # ys) = (x = y \<and> startswith xs ys)"


text \<open>The final segment of a path: what follows its last \<open>/\<close> (\<open>posixpath.basename\<close>).\<close>

definition basename :: "string \<Rightarrow> string" where
  "basename path = rev (takeWhile (\<lambda>c. c \<noteq> CHR ''/'') (rev path))"

subsection \<open>Example environments\<close>

text \<open>A machine on which every operation and every command succeeds.\<close>

definition env_remote :: env where
  "env_remote =
     \<lparr>home_dir = ''/home/u'', conda_token = None, getcwd = ''/home/u'',
      isdir = (\<lambda>path. False), exit_status = (\<lambda>tr cmd. 0), os_error = (\<lambda>tr e. False),
      str_of = (\<lambda>x. ''None'')\<rparr>"

text \<open>The same, called from a checkout of Tax-Calculator that holds \<open>taxcalc/\<close>.\<close>

definition env_local :: env where
  "env_local =
     \<lparr>home_dir = ''/home/u'', conda_token = None, getcwd = ''/home/u/Tax-Calculator'',
      isdir = (\<lambda>path. path = ''./taxcalc''), exit_status = (\<lambda>tr cmd. 0),
      os_error = (\<lambda>tr e. False), str_of = (\<lambda>x. ''None'')\<rparr>"



text \<open>A directory whose name only ends with the repository name.\<close>

definition env_other_dir :: env where
  "env_other_dir =
     \<lparr>home_dir = ''/home/u'', conda_token = None, getcwd = ''/home/u/My-Tax-Calculator'',
      isdir = (\<lambda>path. path = ''./taxcalc''), exit_status = (\<lambda>tr cmd. 0),
      os_error = (\<lambda>tr e. False), str_of = (\<lambda>x. ''None'')\<rparr>"

section \<open>Properties\<close>

subsection \<open>Running a sequence of steps\<close>

lemmas release_defs =
  release_def check_parameters_def endswith_def os_path_join_def join_step_def
  re_match_def version_pattern_def in_range_def plan_steps_def acquire_steps_def stamp_steps_def
  channel_str_def py_str_def build_steps_def build_cmd_def TOKEN_def ANACONDA_TOKEN_def
  ANACONDA_TOKEN_FILE_def ANACONDA_USER_def ANACONDA_CHANNEL_def HOME_DIR_def WORKING_DIR_def
  BUILDS_DIR_def GITHUB_URL_def install_steps_def install_cmd_def uninstall_cmd_def pkg_dir_def
  cleanup_steps_def os_call_def


text \<open>The events of a run are the events before it and a prefix of the steps: all of them
  when no exception was raised.\<close>

lemma exec_trace:
  "exec w tr es = (res, t) \<Longrightarrow>
     \<exists>k\<le>length es. t = tr @ take k es \<and> (res = None \<longrightarrow> k = length es)"
proof (induction es arbitrary: tr)
  case Nil
  then show ?case by simp
next
  case (Cons e es)
  show ?case
  proof (cases "perform w tr e")
    case None
    with Cons.prems have "exec w (tr @ [e]) es = (res, t)" by simp
    from Cons.IH[OF this] obtain k where
      k: "k \<le> length es" "t = (tr @ [e]) @ take k es" "res = None \<longrightarrow> k = length es"
      by blast
    then have "Suc k \<le> length (e # es) \<and> t = tr @ take (Suc k) (e # es) \<and>
       (res = None \<longrightarrow> Suc k = length (e # es))" by simp
    then show ?thesis by blast
  next
    case (Some x)
    with Cons.prems have "res = Some x" "t = tr @ [e]" by simp_all
    then have "Suc 0 \<le> length (e # es) \<and> t = tr @ take (Suc 0) (e # es) \<and>
       (res = None \<longrightarrow> Suc 0 = length (e # es))" by simp
    then show ?thesis by blast
  qed
qed

lemma exec_None: "exec w tr es = (None, t) \<Longrightarrow> t = tr @ es"
  using exec_trace[of w tr es None t] by auto



text \<open>Steps that only print run to the end.\<close>

lemma exec_prints: "\<forall>e\<in>set es. \<exists>s. e = Print s \<Longrightarrow> exec w tr es = (None, tr @ es)"
  by (induction es arbitrary: tr) auto

lemma plan_steps_prints: "e \<in> set (plan_steps w r p v l channels) \<Longrightarrow> \<exists>s. e = Print s"
  by (auto simp: plan_steps_def split: if_splits)

text \<open>When the check of the parameters passes.\<close>

lemma check_parameters_Inr:
  "check_parameters w repo_name pkg_name version local dryrun = Inr (r, p, v, l, d) \<longleftrightarrow>
     repo_name = PyStr r \<and> pkg_name = PyStr p \<and> version = PyStr v \<and> local = PyBool l \<and>
     dryrun = PyBool d \<and> (l \<longrightarrow> endswith (getcwd w) r \<and> isdir w (os_path_join ''.'' [p])) \<and>
     re_match version_pattern v \<noteq> None"
  by (auto simp: check_parameters_def split: pyval.splits if_splits)

text \<open>When it fails: the exception is a \<open>ValueError\<close> with one of eight messages.\<close>

lemma check_parameters_Inl:
  assumes "check_parameters w repo_name pkg_name version local dryrun = Inl e"
  shows "\<exists>m. e = ValueError m \<and>
           (m = ''repo_name is not a string object'' \<or>
            m = ''pkg_name is not a string object'' \<or>
            m = ''version is not a string object'' \<or>
            m = ''local is not a boolean object'' \<or>
            m = ''dryrun is not a boolean object'' \<or>
            (\<exists>r. repo_name = PyStr r \<and>
               m = ''ERROR: cwd='' @ getcwd w @ '' does not correspond to REPOSITORY_NAME='' @ r @ [CHR 0x0A]) \<or>
            (\<exists>p. pkg_name = PyStr p \<and>
               m = ''ERROR: cwd='' @ getcwd w @ '' does not contain subdirectory '' @ p @ '' '') \<or>
            (\<exists>v. version = PyStr v \<and>
               m = ''version='' @ v @ '' does not have X.Y.Z semantic-versioning pattern''))"
proof (cases "\<exists>r. repo_name = PyStr r")
  case False
  with assms have "e = ValueError ''repo_name is not a string object''"
    by (cases repo_name) (simp_all add: check_parameters_def)
  then show ?thesis by simp
next
  case True
  then obtain r where r: "repo_name = PyStr r" by blast
  show ?thesis
  proof (cases "\<exists>p. pkg_name = PyStr p")
    case False
    with assms r have "e = ValueError ''pkg_name is not a string object''"
      by (cases pkg_name) (simp_all add: check_parameters_def)
    then show ?thesis by simp
  next
    case True
    then obtain p where p: "pkg_name = PyStr p" by blast
    show ?thesis
    proof (cases "\<exists>v. version = PyStr v")
      case False
      with assms r p have "e = ValueError ''version is not a string object''"
        by (cases version) (simp_all add: check_parameters_def)
      then show ?thesis by simp
    next
      case True
      then obtain v where v: "version = PyStr v" by blast
      show ?thesis
      proof (cases "\<exists>l. local = PyBool l")
        case False
        with assms r p v have "e = ValueError ''local is not a boolean object''"
          by (cases local) (simp_all add: check_parameters_def)
        then show ?thesis by simp
      next
        case True
        then obtain l where l: "local = PyBool l" by blast
        consider (cwd) "l \<and> \<not> endswith (getcwd w) r"
          | (sub) "\<not> (l \<and> \<not> endswith (getcwd w) r)" "l \<and> \<not> isdir w (os_path_join ''.'' [p])"
          | (ok) "\<not> (l \<and> \<not> endswith (getcwd w) r)" "\<not> (l \<and> \<not> isdir w (os_path_join ''.'' [p]))"
          by blast
        then show ?thesis
        proof cases
          case cwd
          with assms r p v l have "e = ValueError (''ERROR: cwd='' @ getcwd w @
              '' does not correspond to REPOSITORY_NAME='' @ r @ [CHR 0x0A])"
            by (simp add: check_parameters_def)
          with r show ?thesis by simp
        next
          case sub
          with assms r p v l have "e = ValueError (''ERROR: cwd='' @ getcwd w @
              '' does not contain subdirectory '' @ p @ '' '')"
            by (simp add: check_parameters_def)
          with p show ?thesis by simp
        next
          case ok
          show ?thesis
          proof (cases "\<exists>d. dryrun = PyBool d")
            case False
            with assms r p v l ok have "e = ValueError ''dryrun is not a boolean object''"
              by (cases dryrun) (simp_all add: check_parameters_def)
            then show ?thesis by simp
          next
            case True
            then obtain d where d: "dryrun = PyBool d" by blast
            with assms r p v l ok have "e = ValueError (''version='' @ v @
                '' does not have X.Y.Z semantic-versioning pattern'')"
              by (simp add: check_parameters_def split: if_splits)
            with v show ?thesis by simp
          qed
        qed
      qed
    qed
  qed
qed

subsection \<open>The shape of a run\<close>

text \<open>A dry run.\<close>

lemma release_dry:
  assumes "check_parameters w repo_name pkg_name version local dryrun = Inr (r, p, v, l, True)"
  shows "release w repo_name pkg_name version local dryrun channels =
           (None, plan_steps w r p v l channels @ [Print '': Package-Builder is quitting''])"
proof -
  have "\<forall>e\<in>set (plan_steps w r p v l channels @ [Print '': Package-Builder is quitting'']).
          \<exists>s. e = Print s"
    using plan_steps_prints by auto
  from exec_prints[OF this, of w "[]"] assms show ?thesis by (simp add: release_def)
qed

text \<open>
  Any other checked call either stops before the channel arguments are composed, or
  runs the remaining steps after all of the first ones.
\<close>

lemma release_steps:
  assumes chk: "check_parameters w repo_name pkg_name version local dryrun = Inr (r, p, v, l, False)"
    and run: "release w repo_name pkg_name version local dryrun channels = (res, tr)"
  obtains (early) k where
      "tr = take k (plan_steps w r p v l channels @ acquire_steps w r v l @ stamp_steps p v)"
  | (late) cs where "channel_str w channels = Inr cs"
      "exec w (plan_steps w r p v l channels @ acquire_steps w r v l @ stamp_steps p v)
         (build_steps w l cs @ (if l then install_steps w r p v else []) @ cleanup_steps w)
       = (res, tr)"
proof -
  let ?pre = "plan_steps w r p v l channels @ acquire_steps w r v l @ stamp_steps p v"
  obtain res1 t1 where e1: "exec w [] ?pre = (res1, t1)" by (cases "exec w [] ?pre")
  from exec_trace[OF e1] obtain k where k: "t1 = take k ?pre" "res1 = None \<longrightarrow> k = length ?pre"
    by auto
  show thesis
  proof (cases res1)
    case (Some e)
    with chk run e1 have "tr = t1" by (simp add: release_def)
    with k early show thesis by blast
  next
    case None
    with k have t1: "t1 = ?pre" by simp
    show thesis
    proof (cases "channel_str w channels")
      case (Inl e)
      with chk run e1 None have "tr = t1" by (simp add: release_def)
      with k early show thesis by blast
    next
      case (Inr cs)
      with chk run e1 None t1 have
        "exec w ?pre (build_steps w l cs @ (if l then install_steps w r p v else []) @
           cleanup_steps w) = (res, tr)"
        by (simp add: release_def)
      with Inr late show thesis by blast
    qed
  qed
qed

text \<open>A call that issued a command passed the check with \<open>dryrun\<close> false.\<close>

lemma OsCall_checked:
  assumes run: "release w repo_name pkg_name version local dryrun channels = (res, tr)"
    and ev: "OsCall c b \<in> set tr"
  shows "\<exists>r p v l. check_parameters w repo_name pkg_name version local dryrun
                     = Inr (r, p, v, l, False)"
proof (cases "check_parameters w repo_name pkg_name version local dryrun")
  case (Inl e)
  with run ev show ?thesis by (simp add: release_def)
next
  case (Inr t)
  obtain r p v l d where t: "t = (r, p, v, l, d)" by (cases t)
  show ?thesis
  proof (cases d)
    case True
    from Inr t True have "check_parameters w repo_name pkg_name version local dryrun
        = Inr (r, p, v, l, True)" by simp
    from release_dry[OF this, of channels] run ev
    have "OsCall c b \<in> set (plan_steps w r p v l channels)" by auto
    from plan_steps_prints[OF this] show ?thesis by simp
  next
    case False
    with Inr t show ?thesis by simp
  qed
qed

lemma startswith_trans: "startswith a b \<Longrightarrow> startswith b c \<Longrightarrow> startswith a c"
  by (induction a c arbitrary: b rule: startswith.induct) (auto elim: startswith.elims)

text \<open>Where the steps hold \<open>conda\<close> commands and file revisions.\<close>

lemma pre_steps_no_conda:
  "OsCall c b \<in> set (plan_steps w r p v l channels @ acquire_steps w r v l @ stamp_steps p v)
     \<Longrightarrow> \<not> startswith c ''conda ''"
  by (auto simp: plan_steps_def acquire_steps_def stamp_steps_def split: if_splits)

lemma before_stamping_no_revision:
  "FileRevision f pat rep \<notin> set (plan_steps w r p v l channels @ acquire_steps w r v l)"
  by (auto simp: plan_steps_def acquire_steps_def split: if_splits)

lemma post_steps_no_revision:
  "FileRevision f pat rep \<notin>
     set (build_steps w l cs @ (if l then install_steps w r p v else []) @ cleanup_steps w)"
  by (simp add: build_steps_def install_steps_def cleanup_steps_def)

lemma stamp_steps_eq:
  "stamp_steps p v =
     [Print '': Package-Builder is setting version'',
      FileRevision ''conda.recipe/meta.yaml'' ''version: .*'' (''version: '' @ v),
      FileRevision ''setup.py'' ''version = .*'' (''version = '' @ [CHR 0x22] @ v @ [CHR 0x22]),
      FileRevision (if p = [] \<or> last p = CHR ''/'' then p @ ''__init__.py'' else p @ ''/__init__.py'')
        ''__version__ = .*'' (''__version__ = '' @ [CHR 0x22] @ v @ [CHR 0x22])]"
  by (simp add: stamp_steps_def os_path_join_def join_step_def)

subsection \<open>The version check\<close>

text \<open>
  C1. The claim: a version is accepted exactly when the whole string matches
  \<open>^[0-9]+\.[0-9]+\.[0-9]+$\<close>, and any other version makes \<open>release\<close> raise
  \<open>ValueError\<close> before anything is done. The code does not keep it: \<open>$\<close> also matches
  before a final newline, so the version \<open>1.0.1\<close> followed by a newline passes the
  check, although the match ends after five of its six characters; \<open>release\<close> then goes
  on and issues a \<open>git clone\<close> whose branch argument holds the newline.
\<close>

theorem version_with_trailing_newline_accepted:
  "re_match version_pattern (''1.0.1'' @ [CHR 0x0A]) = Some 5 \<and>
   check_parameters env_remote (PyStr ''Tax-Calculator'') (PyStr ''taxcalc'')
       (PyStr (''1.0.1'' @ [CHR 0x0A])) (PyBool False) (PyBool False)
     = Inr (''Tax-Calculator'', ''taxcalc'', ''1.0.1'' @ [CHR 0x0A], False, False) \<and>
   fst (release env_remote (PyStr ''Tax-Calculator'') (PyStr ''taxcalc'')
       (PyStr (''1.0.1'' @ [CHR 0x0A])) (PyBool False) (PyBool False) PyNone) = None \<and>
   OsCall (''git clone --branch 1.0.1'' @ [CHR 0x0A] @
           '' --depth 1 https://github.com/PSLmodels/Tax-Calculator/'') False
     \<in> set (snd (release env_remote (PyStr ''Tax-Calculator'') (PyStr ''taxcalc'')
       (PyStr (''1.0.1'' @ [CHR 0x0A])) (PyBool False) (PyBool False) PyNone))"
  by (simp add: release_defs env_remote_def)

subsection \<open>Failed checks and dry runs\<close>

text \<open>A call whose parameters do not pass the check raises \<open>ValueError\<close> at once.\<close>

lemma failed_check_raises:
  assumes "\<not> (\<exists>r p v l d. repo_name = PyStr r \<and> pkg_name = PyStr p \<and> version = PyStr v \<and>
              local = PyBool l \<and> dryrun = PyBool d \<and>
              (l \<longrightarrow> endswith (getcwd w) r \<and> isdir w (os_path_join ''.'' [p])) \<and>
              re_match version_pattern v \<noteq> None)"
  shows "\<exists>m. release w repo_name pkg_name version local dryrun channels = (Some (ValueError m), [])"
proof (cases "check_parameters w repo_name pkg_name version local dryrun")
  case (Inr t)
  obtain r p v l d where "t = (r, p, v, l, d)" by (cases t)
  with Inr have "repo_name = PyStr r \<and> pkg_name = PyStr p \<and> version = PyStr v \<and>
      local = PyBool l \<and> dryrun = PyBool d \<and>
      (l \<longrightarrow> endswith (getcwd w) r \<and> isdir w (os_path_join ''.'' [p])) \<and>
      re_match version_pattern v \<noteq> None"
    by (simp add: check_parameters_Inr)
  with assms show ?thesis by metis
next
  case (Inl e)
  then have rel: "release w repo_name pkg_name version local dryrun channels = (Some e, [])"
    by (simp add: release_def)
  from check_parameters_Inl[OF Inl] obtain m where "e = ValueError m" by (elim exE conjE)
  with rel show ?thesis by simp
qed

text \<open>
  C5. Whenever the parameters fail the check (a parameter of the wrong type, a version
  that the pattern does not match, or, in local mode, a working directory that does not
  end with the repository name or lacks the package directory), \<open>release\<close> raises
  \<open>ValueError\<close> and no event has been issued: nothing is printed, created, removed,
  written or run. The message belongs to the first check that fails, in the order of the
  source: it names \<open>repo_name\<close>, \<open>pkg_name\<close>, \<open>version\<close>, \<open>local\<close> or \<open>dryrun\<close> when
  that parameter has the wrong type, gives the working directory with the repository
  name or with the package name when a check of local mode fails, and gives the version
  when the pattern does not match it.
\<close>

theorem invalid_parameters_raise_without_effects:
  "(\<not> (\<exists>r p v l d. repo_name = PyStr r \<and> pkg_name = PyStr p \<and> version = PyStr v \<and>
         local = PyBool l \<and> dryrun = PyBool d \<and>
         (l \<longrightarrow> endswith (getcwd w) r \<and> isdir w (os_path_join ''.'' [p])) \<and>
         re_match version_pattern v \<noteq> None) \<longrightarrow>
      (\<exists>m. release w repo_name pkg_name version local dryrun channels
             = (Some (ValueError m), []))) \<and>
   ((\<forall>r. repo_name \<noteq> PyStr r) \<longrightarrow>
      release w repo_name pkg_name version local dryrun channels
        = (Some (ValueError ''repo_name is not a string object''), [])) \<and>
   (repo_name = PyStr r \<and> (\<forall>p. pkg_name \<noteq> PyStr p) \<longrightarrow>
      release w repo_name pkg_name version local dryrun channels
        = (Some (ValueError ''pkg_name is not a string object''), [])) \<and>
   (repo_name = PyStr r \<and> pkg_name = PyStr p \<and> (\<forall>v. version \<noteq> PyStr v) \<longrightarrow>
      release w repo_name pkg_name version local dryrun channels
        = (Some (ValueError ''version is not a string object''), [])) \<and>
   (repo_name = PyStr r \<and> pkg_name = PyStr p \<and> version = PyStr v \<and>
      (\<forall>l. local \<noteq> PyBool l) \<longrightarrow>
      release w repo_name pkg_name version local dryrun channels
        = (Some (ValueError ''local is not a boolean object''), [])) \<and>
   (repo_name = PyStr r \<and> pkg_name = PyStr p \<and> version = PyStr v \<and>
      local = PyBool True \<and> \<not> endswith (getcwd w) r \<longrightarrow>
      release w repo_name pkg_name version local dryrun channels
        = (Some (ValueError (''ERROR: cwd='' @ getcwd w @
             '' does not correspond to REPOSITORY_NAME='' @ r @ [CHR 0x0A])), [])) \<and>
   (repo_name = PyStr r \<and> pkg_name = PyStr p \<and> version = PyStr v \<and>
      local = PyBool True \<and> endswith (getcwd w) r \<and>
      \<not> isdir w (os_path_join ''.'' [p]) \<longrightarrow>
      release w repo_name pkg_name version local dryrun channels
        = (Some (ValueError (''ERROR: cwd='' @ getcwd w @
             '' does not contain subdirectory '' @ p @ '' '')), [])) \<and>
   (repo_name = PyStr r \<and> pkg_name = PyStr p \<and> version = PyStr v \<and>
      local = PyBool l \<and> (l \<longrightarrow> endswith (getcwd w) r \<and> isdir w (os_path_join ''.'' [p])) \<and>
      (\<forall>d. dryrun \<noteq> PyBool d) \<longrightarrow>
      release w repo_name pkg_name version local dryrun channels
        = (Some (ValueError ''dryrun is not a boolean object''), [])) \<and>
   (repo_name = PyStr r \<and> pkg_name = PyStr p \<and> version = PyStr v \<and>
      local = PyBool l \<and> (l \<longrightarrow> endswith (getcwd w) r \<and> isdir w (os_path_join ''.'' [p])) \<and>
      dryrun = PyBool d \<and> re_match version_pattern v = None \<longrightarrow>
      release w repo_name pkg_name version local dryrun channels
        = (Some (ValueError (''version='' @ v @
             '' does not have X.Y.Z semantic-versioning pattern'')), []))"
proof (intro conjI impI)
  assume "\<not> (\<exists>r p v l d. repo_name = PyStr r \<and> pkg_name = PyStr p \<and> version = PyStr v \<and>
         local = PyBool l \<and> dryrun = PyBool d \<and>
         (l \<longrightarrow> endswith (getcwd w) r \<and> isdir w (os_path_join ''.'' [p])) \<and>
         re_match version_pattern v \<noteq> None)"
  then show "\<exists>m. release w repo_name pkg_name version local dryrun channels
             = (Some (ValueError m), [])"
    by (rule failed_check_raises)
next
  assume "\<forall>r. repo_name \<noteq> PyStr r"
  then show "release w repo_name pkg_name version local dryrun channels
        = (Some (ValueError ''repo_name is not a string object''), [])"
    by (cases repo_name) (simp_all add: release_def check_parameters_def)
next
  assume "repo_name = PyStr r \<and> (\<forall>p. pkg_name \<noteq> PyStr p)"
  then show "release w repo_name pkg_name version local dryrun channels
        = (Some (ValueError ''pkg_name is not a string object''), [])"
    by (cases pkg_name) (simp_all add: release_def check_parameters_def)
next
  assume "repo_name = PyStr r \<and> pkg_name = PyStr p \<and> (\<forall>v. version \<noteq> PyStr v)"
  then show "release w repo_name pkg_name version local dryrun channels
        = (Some (ValueError ''version is not a string object''), [])"
    by (cases version) (simp_all add: release_def check_parameters_def)
next
  assume "repo_name = PyStr r \<and> pkg_name = PyStr p \<and> version = PyStr v \<and>
      (\<forall>l. local \<noteq> PyBool l)"
  then show "release w repo_name pkg_name version local dryrun channels
        = (Some (ValueError ''local is not a boolean object''), [])"
    by (cases local) (auto simp: release_def check_parameters_def)
next
  assume "repo_name = PyStr r \<and> pkg_name = PyStr p \<and> version = PyStr v \<and>
      local = PyBool True \<and> \<not> endswith (getcwd w) r"
  then show "release w repo_name pkg_name version local dryrun channels
        = (Some (ValueError (''ERROR: cwd='' @ getcwd w @
             '' does not correspond to REPOSITORY_NAME='' @ r @ [CHR 0x0A])), [])"
    by (simp add: release_def check_parameters_def)
next
  assume "repo_name = PyStr r \<and> pkg_name = PyStr p \<and> version = PyStr v \<and>
      local = PyBool True \<and> endswith (getcwd w) r \<and>
      \<not> isdir w (os_path_join ''.'' [p])"
  then show "release w repo_name pkg_name version local dryrun channels
        = (Some (ValueError (''ERROR: cwd='' @ getcwd w @
             '' does not contain subdirectory '' @ p @ '' '')), [])"
    by (simp add: release_def check_parameters_def)
next
  assume "repo_name = PyStr r \<and> pkg_name = PyStr p \<and> version = PyStr v \<and>
      local = PyBool l \<and> (l \<longrightarrow> endswith (getcwd w) r \<and> isdir w (os_path_join ''.'' [p])) \<and>
      (\<forall>d. dryrun \<noteq> PyBool d)"
  then show "release w repo_name pkg_name version local dryrun channels
        = (Some (ValueError ''dryrun is not a boolean object''), [])"
    by (cases dryrun) (auto simp: release_def check_parameters_def)
next
  assume "repo_name = PyStr r \<and> pkg_name = PyStr p \<and> version = PyStr v \<and>
      local = PyBool l \<and> (l \<longrightarrow> endswith (getcwd w) r \<and> isdir w (os_path_join ''.'' [p])) \<and>
      dryrun = PyBool d \<and> re_match version_pattern v = None"
  then show "release w repo_name pkg_name version local dryrun channels
        = (Some (ValueError (''version='' @ v @
             '' does not have X.Y.Z semantic-versioning pattern'')), [])"
    by (auto simp: release_def check_parameters_def)
qed

theorem invalid_parameters_raise_without_effects_witness:
  "release env_remote (PyStr ''Tax-Calculator'') (PyStr ''taxcalc'') (PyStr ''1.0'')
       (PyBool False) (PyBool False) PyNone
     = (Some (ValueError ''version=1.0 does not have X.Y.Z semantic-versioning pattern''), [])"
proof -
  have re: "re_match version_pattern ''1.0'' = None"
    by (simp add: re_match_def version_pattern_def in_range_def)
  show ?thesis
    using invalid_parameters_raise_without_effects[where w = env_remote
        and repo_name = "PyStr ''Tax-Calculator''" and pkg_name = "PyStr ''taxcalc''"
        and version = "PyStr ''1.0''" and local = "PyBool False" and dryrun = "PyBool False"
        and channels = PyNone and r = "''Tax-Calculator''" and p = "''taxcalc''"
        and v = "''1.0''" and l = False and d = False] re
    by simp
qed

text \<open>
  C4. When the parameters pass the check and \<open>dryrun\<close> is true, \<open>release\<close> returns
  after printing the plan and the line that it is quitting: every event of the call is
  a \<open>print\<close>, so no file is touched and no command is run. There is no other early
  return: a call with \<open>dryrun\<close> false that returns has issued every step up to the
  last one.
\<close>

theorem dryrun_only_prints:
  assumes "check_parameters w repo_name pkg_name version local dryrun = Inr (r, p, v, l, d)"
  shows "(d \<longrightarrow>
            release w repo_name pkg_name version local dryrun channels =
              (None, plan_steps w r p v l channels @ [Print '': Package-Builder is quitting'']) \<and>
            (\<forall>e \<in> set (snd (release w repo_name pkg_name version local dryrun channels)).
               \<exists>s. e = Print s)) \<and>
         (\<not> d \<longrightarrow>
            (\<forall>tr. release w repo_name pkg_name version local dryrun channels = (None, tr) \<longrightarrow>
               (\<exists>cs. channel_str w channels = Inr cs \<and>
                 tr = plan_steps w r p v l channels @ acquire_steps w r v l @ stamp_steps p v @
                      build_steps w l cs @ (if l then install_steps w r p v else []) @
                      cleanup_steps w)))"
proof (intro conjI impI allI)
  assume d
  have pr: "\<forall>e\<in>set (plan_steps w r p v l channels @ [Print '': Package-Builder is quitting'']).
          \<exists>s. e = Print s"
    using plan_steps_prints by auto
  show dry: "release w repo_name pkg_name version local dryrun channels =
              (None, plan_steps w r p v l channels @ [Print '': Package-Builder is quitting''])"
    using exec_prints[OF pr, of w "[]"] assms \<open>d\<close> by (simp add: release_def)
  show "\<forall>e \<in> set (snd (release w repo_name pkg_name version local dryrun channels)).
          \<exists>s. e = Print s"
    unfolding dry using pr by simp
next
  fix tr
  assume nd: "\<not> d"
    and run: "release w repo_name pkg_name version local dryrun channels = (None, tr)"
  let ?pre = "plan_steps w r p v l channels @ acquire_steps w r v l @ stamp_steps p v"
  obtain res1 t1 where e1: "exec w [] ?pre = (res1, t1)" by (cases "exec w [] ?pre")
  from run assms nd e1 have r1: "res1 = None"
    by (auto simp: release_def split: option.splits)
  with e1 have t1: "t1 = ?pre" using exec_None by fastforce
  from run assms nd e1 r1 obtain cs where cs: "channel_str w channels = Inr cs"
    by (cases "channel_str w channels") (auto simp: release_def)
  let ?post = "build_steps w l cs @ (if l then install_steps w r p v else []) @ cleanup_steps w"
  from run assms nd e1 r1 cs have "exec w t1 ?post = (None, tr)"
    by (simp add: release_def)
  then have "tr = t1 @ ?post" by (rule exec_None)
  with t1 cs show "\<exists>cs. channel_str w channels = Inr cs \<and>
                 tr = plan_steps w r p v l channels @ acquire_steps w r v l @ stamp_steps p v @
                      build_steps w l cs @ (if l then install_steps w r p v else []) @
                      cleanup_steps w"
    by simp
qed

theorem dryrun_only_prints_witness:
  "release env_local (PyStr ''Tax-Calculator'') (PyStr ''taxcalc'') (PyStr ''1.0.1'')
       (PyBool True) (PyBool True) PyNone =
     (None,
      [Print '': Package-Builder will build model packages for:'',
       Print '':   repository_name = Tax-Calculator'',
       Print '':   package_name = taxcalc'',
       Print '':   model_version = 1.0.1'',
       Print '':   additional channels= None'',
       Print '': Package-Builder will install package on local computer'',
       Print '': Package-Builder is quitting''])"
proof -
  have "check_parameters env_local (PyStr ''Tax-Calculator'') (PyStr ''taxcalc'')
          (PyStr ''1.0.1'') (PyBool True) (PyBool True)
        = Inr (''Tax-Calculator'', ''taxcalc'', ''1.0.1'', True, True)"
    by (simp add: release_defs env_local_def)
  from dryrun_only_prints[OF this, of PyNone] show ?thesis
    by (simp add: plan_steps_def py_str_def env_local_def)
qed

subsection \<open>The checks of local mode\<close>

text \<open>
  C3, as stated: in local mode \<open>release\<close> raises \<open>ValueError\<close> unless the final segment
  of the working directory equals the repository name and the package directory
  exists. The check is \<open>cwd.endswith(repo_name)\<close>, a test on the whole path: called in
  \<open>/home/u/My-Tax-Calculator\<close> for the repository \<open>Tax-Calculator\<close>, the call raises
  nothing and copies that directory.
\<close>

theorem suffix_directory_accepted_in_local_mode:
  "basename (getcwd env_other_dir) = ''My-Tax-Calculator'' \<and>
   basename (getcwd env_other_dir) \<noteq> ''Tax-Calculator'' \<and>
   isdir env_other_dir (os_path_join ''.'' [''taxcalc'']) \<and>
   fst (release env_other_dir (PyStr ''Tax-Calculator'') (PyStr ''taxcalc'') (PyStr ''1.0.1'')
          (PyBool True) (PyBool False) PyNone) = None \<and>
   Copytree ''/home/u/My-Tax-Calculator'' ''/home/u/temporary_pkgbld_working_dir/Tax-Calculator''
       [''*.pyc'', ''*.html'', ''test_*'']
     \<in> set (snd (release env_other_dir (PyStr ''Tax-Calculator'') (PyStr ''taxcalc'')
          (PyStr ''1.0.1'') (PyBool True) (PyBool False) PyNone))"
  by (simp add: release_defs env_other_dir_def basename_def)

text \<open>
  C3, amended: in local mode \<open>release\<close> raises \<open>ValueError\<close>, with no event issued,
  unless the working directory ends with the repository name as a string and
  \<open>./<pkg_name>\<close> is a directory. When the three names are strings, the message gives
  the working directory and the repository name, or the working directory and the
  package name.
\<close>

theorem local_requires_suffix_and_subdirectory:
  assumes "local = PyBool True"
    and "\<not> (\<exists>r p. repo_name = PyStr r \<and> pkg_name = PyStr p \<and>
               endswith (getcwd w) r \<and> isdir w (os_path_join ''.'' [p]))"
  shows "\<exists>m. release w repo_name pkg_name version local dryrun channels
               = (Some (ValueError m), []) \<and>
             (\<forall>r p v. repo_name = PyStr r \<and> pkg_name = PyStr p \<and> version = PyStr v \<longrightarrow>
                m = (if endswith (getcwd w) r
                     then ''ERROR: cwd='' @ getcwd w @ '' does not contain subdirectory '' @ p @ '' ''
                     else ''ERROR: cwd='' @ getcwd w @
                          '' does not correspond to REPOSITORY_NAME='' @ r @ [CHR 0x0A]))"
proof (cases "check_parameters w repo_name pkg_name version local dryrun")
  case (Inr t)
  obtain r p v l d where "t = (r, p, v, l, d)" by (cases t)
  with Inr assms show ?thesis by (simp add: check_parameters_Inr)
next
  case (Inl e)
  then have rel: "release w repo_name pkg_name version local dryrun channels = (Some e, [])"
    by (simp add: release_def)
  from check_parameters_Inl[OF Inl] obtain m where m: "e = ValueError m" by auto
  have msg: "\<forall>r p v. repo_name = PyStr r \<and> pkg_name = PyStr p \<and> version = PyStr v \<longrightarrow>
                m = (if endswith (getcwd w) r
                     then ''ERROR: cwd='' @ getcwd w @ '' does not contain subdirectory '' @ p @ '' ''
                     else ''ERROR: cwd='' @ getcwd w @
                          '' does not correspond to REPOSITORY_NAME='' @ r @ [CHR 0x0A])"
  proof (intro allI impI)
    fix r p v
    assume "repo_name = PyStr r \<and> pkg_name = PyStr p \<and> version = PyStr v"
    with Inl m assms show "m = (if endswith (getcwd w) r
                     then ''ERROR: cwd='' @ getcwd w @ '' does not contain subdirectory '' @ p @ '' ''
                     else ''ERROR: cwd='' @ getcwd w @
                          '' does not correspond to REPOSITORY_NAME='' @ r @ [CHR 0x0A])"
      by (simp add: check_parameters_def split: if_splits)
  qed
  show ?thesis
  proof (intro exI conjI)
    show "release w repo_name pkg_name version local dryrun channels = (Some (ValueError m), [])"
      using rel m by simp
    show "\<forall>r p v. repo_name = PyStr r \<and> pkg_name = PyStr p \<and> version = PyStr v \<longrightarrow>
                m = (if endswith (getcwd w) r
                     then ''ERROR: cwd='' @ getcwd w @ '' does not contain subdirectory '' @ p @ '' ''
                     else ''ERROR: cwd='' @ getcwd w @
                          '' does not correspond to REPOSITORY_NAME='' @ r @ [CHR 0x0A])"
      by (rule msg)
  qed
qed

theorem local_requires_suffix_and_subdirectory_witness:
  "release env_local (PyStr ''Tax-Calculator'') (PyStr ''taxcal'') (PyStr ''1.0.1'')
       (PyBool True) (PyBool False) PyNone
     = (Some (ValueError
          ''ERROR: cwd=/home/u/Tax-Calculator does not contain subdirectory taxcal ''), [])"
proof -
  have "\<not> (\<exists>r p. PyStr ''Tax-Calculator'' = PyStr r \<and> PyStr ''taxcal'' = PyStr p \<and>
               endswith (getcwd env_local) r \<and> isdir env_local (os_path_join ''.'' [p]))"
    by (simp add: env_local_def os_path_join_def join_step_def)
  from local_requires_suffix_and_subdirectory[OF refl this, of "PyStr ''1.0.1''" "PyBool False" PyNone]
  show ?thesis
    by (simp add: release_defs env_local_def)
qed

subsection \<open>Stamping and building\<close>

text \<open>
  C6. In every call that issues the build command, the three file revisions come
  before it, in this order: \<open>conda.recipe/meta.yaml\<close> with \<open>version: .*\<close>, \<open>setup.py\<close>
  with \<open>version = .*\<close>, and \<open>__init__.py\<close> joined to the package name with
  \<open>__version__ = .*\<close>, each with the requested version as replacement; the build
  command is not among the events before them, and the call issues no other file
  revision. As each step runs only when the one before it raised
  nothing, the build is never issued on a tree that was not stamped.
\<close>

theorem stamping_precedes_build:
  assumes run: "release w repo_name pkg_name version local dryrun channels = (res, tr)"
    and ev: "OsCall c b \<in> set tr"
    and build: "startswith c ''conda build conda.recipe/''"
  shows "\<exists>p v before after.
           pkg_name = PyStr p \<and> version = PyStr v \<and>
           tr = before @
             [FileRevision ''conda.recipe/meta.yaml'' ''version: .*'' (''version: '' @ v),
              FileRevision ''setup.py'' ''version = .*''
                (''version = '' @ [CHR 0x22] @ v @ [CHR 0x22]),
              FileRevision
                (if p = [] \<or> last p = CHR ''/'' then p @ ''__init__.py'' else p @ ''/__init__.py'')
                ''__version__ = .*'' (''__version__ = '' @ [CHR 0x22] @ v @ [CHR 0x22])] @
             after \<and>
           OsCall c b \<in> set after \<and> OsCall c b \<notin> set before \<and>
           (\<forall>f pat rep. FileRevision f pat rep \<notin> set before \<union> set after)"
proof -
  from OsCall_checked[OF run ev] obtain r p v l where
    chk: "check_parameters w repo_name pkg_name version local dryrun = Inr (r, p, v, l, False)"
    by auto
  then have names: "pkg_name = PyStr p" "version = PyStr v"
    by (simp_all add: check_parameters_Inr)
  have conda: "startswith c ''conda ''"
    using build by (rule startswith_trans) simp
  let ?pre = "plan_steps w r p v l channels @ acquire_steps w r v l @ stamp_steps p v"
  from chk run show ?thesis
  proof (cases rule: release_steps)
    case (early k)
    with ev have "OsCall c b \<in> set ?pre" by (auto dest: in_set_takeD)
    from pre_steps_no_conda[OF this] conda show ?thesis by simp
  next
    case (late cs)
    let ?post = "build_steps w l cs @ (if l then install_steps w r p v else []) @ cleanup_steps w"
    from exec_trace[OF late(2)] obtain k where tr: "tr = ?pre @ take k ?post" by auto
    let ?before = "plan_steps w r p v l channels @ acquire_steps w r v l @
                     [Print '': Package-Builder is setting version'']"
    let ?after = "take k ?post"
    have split: "tr = ?before @
             [FileRevision ''conda.recipe/meta.yaml'' ''version: .*'' (''version: '' @ v),
              FileRevision ''setup.py'' ''version = .*''
                (''version = '' @ [CHR 0x22] @ v @ [CHR 0x22]),
              FileRevision
                (if p = [] \<or> last p = CHR ''/'' then p @ ''__init__.py'' else p @ ''/__init__.py'')
                ''__version__ = .*'' (''__version__ = '' @ [CHR 0x22] @ v @ [CHR 0x22])] @
             ?after"
      unfolding tr stamp_steps_eq by simp
    have notpre: "OsCall c b \<notin> set ?pre" using pre_steps_no_conda conda by blast
    with ev tr have inafter: "OsCall c b \<in> set ?after" by auto
    from notpre have notbefore: "OsCall c b \<notin> set ?before"
      by (simp add: stamp_steps_eq)
    have nb: "FileRevision f pat rep \<notin> set ?before" for f pat rep
      using before_stamping_no_revision[of f pat rep w r p v l channels] by simp
    have na: "FileRevision f pat rep \<notin> set ?after" for f pat rep
      using post_steps_no_revision[of f pat rep w l cs r p v] by (auto dest: in_set_takeD)
    from nb na have none: "\<forall>f pat rep. FileRevision f pat rep \<notin> set ?before \<union> set ?after"
      by simp
    show ?thesis
    proof (intro exI conjI)
      show "pkg_name = PyStr p" by (rule names)
      show "version = PyStr v" by (rule names)
      show "tr = ?before @
             [FileRevision ''conda.recipe/meta.yaml'' ''version: .*'' (''version: '' @ v),
              FileRevision ''setup.py'' ''version = .*''
                (''version = '' @ [CHR 0x22] @ v @ [CHR 0x22]),
              FileRevision
                (if p = [] \<or> last p = CHR ''/'' then p @ ''__init__.py'' else p @ ''/__init__.py'')
                ''__version__ = .*'' (''__version__ = '' @ [CHR 0x22] @ v @ [CHR 0x22])] @
             ?after" by (rule split)
      show "OsCall c b \<in> set ?after" by (rule inafter)
      show "OsCall c b \<notin> set ?before" by (rule notbefore)
      show "\<forall>f pat rep. FileRevision f pat rep \<notin> set ?before \<union> set ?after" by (rule none)
    qed
  qed
qed

theorem stamping_precedes_build_witness:
  "\<exists>p v before after.
     PyStr ''taxcalc'' = PyStr p \<and> PyStr ''1.0.1'' = PyStr v \<and>
     snd (release env_remote (PyStr ''Tax-Calculator'') (PyStr ''taxcalc'') (PyStr ''1.0.1'')
            (PyBool False) (PyBool False) PyNone) =
       before @
       [FileRevision ''conda.recipe/meta.yaml'' ''version: .*'' (''version: '' @ v),
        FileRevision ''setup.py'' ''version = .*''
          (''version = '' @ [CHR 0x22] @ v @ [CHR 0x22]),
        FileRevision
          (if p = [] \<or> last p = CHR ''/'' then p @ ''__init__.py'' else p @ ''/__init__.py'')
          ''__version__ = .*'' (''__version__ = '' @ [CHR 0x22] @ v @ [CHR 0x22])] @
       after \<and>
     OsCall (''conda build conda.recipe/ --token /home/u/.pslmodels_anaconda_token'' @
             '' --user pslmodels --output-folder pkgbld_output --override-channels '' @
             '' --channel defaults --channel pslmodels'') False \<in> set after \<and>
     OsCall (''conda build conda.recipe/ --token /home/u/.pslmodels_anaconda_token'' @
             '' --user pslmodels --output-folder pkgbld_output --override-channels '' @
             '' --channel defaults --channel pslmodels'') False \<notin> set before \<and>
     (\<forall>f pat rep. FileRevision f pat rep \<notin> set before \<union> set after)"
proof -
  let ?run = "release env_remote (PyStr ''Tax-Calculator'') (PyStr ''taxcalc'') (PyStr ''1.0.1'')
            (PyBool False) (PyBool False) PyNone"
  let ?c = "''conda build conda.recipe/ --token /home/u/.pslmodels_anaconda_token'' @
             '' --user pslmodels --output-folder pkgbld_output --override-channels '' @
             '' --channel defaults --channel pslmodels''"
  have run: "?run = (fst ?run, snd ?run)" by simp
  have ev: "OsCall ?c False \<in> set (snd ?run)"
    by (simp add: release_defs env_remote_def)
  have build: "startswith ?c ''conda build conda.recipe/''" by simp
  show ?thesis by (rule stamping_precedes_build[OF run ev build])
qed

subsection \<open>The build invocation and what follows it\<close>

















subsection \<open>The channels of the build\<close>





subsection \<open>Local mode: the install channel\<close>




subsection \<open>Cleaning up after the build\<close>




subsection \<open>Local mode: uninstall and install\<close>



end
